theory Spec2Isabelle
  imports Complex_Main "HOL-Library.AList"
begin

section \<open>JavaScript values met by the form script\<close>

text \<open>
  The script of the doctype \<^emph>\<open>Item Weight Measure\<close> reads fields of JSON response rows
  and of child-table rows, compares them with \<open>0\<close>, and coerces them with \<open>Number\<close>,
  \<open>??\<close>, \<open>||\<close> and \<open>!\<close>. A number is a double: not-a-number, an infinity, or a finite
  value, which is a rational. No arithmetic is done on numbers, so nothing is rounded; the
  two zeros of a double are one value here, as \<open><\<close>, \<open>>\<close> and \<open>||\<close> treat them alike.
\<close>

datatype jsnum = NaN | NegInf | Fin rat | PosInf

datatype jsval = Undefined | Null | Boolean bool | Number jsnum | String string

text \<open>An object is its list of properties, in insertion order.\<close>

type_synonym obj = "(string \<times> jsval) list"

text \<open>Reading a property \<open>o.k\<close>: a property the object lacks reads \<open>undefined\<close>.\<close>

definition get :: "obj \<Rightarrow> string \<Rightarrow> jsval" where
  "get ob k = (case map_of ob k of None \<Rightarrow> Undefined | Some v \<Rightarrow> v)"

text \<open>Assigning a property \<open>o.k = v\<close>.\<close>

definition put :: "string \<Rightarrow> jsval \<Rightarrow> obj \<Rightarrow> obj" where
  "put k v ob = AList.update k v ob"

text \<open>
  \<open>Number(v)\<close>, also the conversion applied by \<open><\<close> and \<open>>\<close> to an operand when the other
  one is a number. The string case is the runtime's numeric-literal parser \<open>str2num\<close>,
  a parameter of the model.
\<close>

fun to_number :: "(string \<Rightarrow> jsnum) \<Rightarrow> jsval \<Rightarrow> jsnum" where
  "to_number str2num Undefined = NaN"
| "to_number str2num Null = Fin 0"
| "to_number str2num (Boolean b) = (if b then Fin 1 else Fin 0)"
| "to_number str2num (Number n) = n"
| "to_number str2num (String s) = str2num s"

text \<open>\<open>a < b\<close> on numbers: false as soon as one side is not-a-number.\<close>

fun num_lt :: "jsnum \<Rightarrow> jsnum \<Rightarrow> bool" where
  "num_lt NaN b = False"
| "num_lt a NaN = False"
| "num_lt PosInf b = False"
| "num_lt a NegInf = False"
| "num_lt NegInf b = True"
| "num_lt a PosInf = True"
| "num_lt (Fin a) (Fin b) = (a < b)"

text \<open>
  \<open>v < n\<close> and \<open>v > n\<close> for a number \<open>n\<close> (in the script \<open>n\<close> is the literal \<open>0\<close>);
  \<open>v > n\<close> is \<open>n < v\<close>.
\<close>

definition js_lt :: "(string \<Rightarrow> jsnum) \<Rightarrow> jsval \<Rightarrow> jsnum \<Rightarrow> bool" where
  "js_lt str2num v n = num_lt (to_number str2num v) n"

definition js_gt :: "(string \<Rightarrow> jsnum) \<Rightarrow> jsval \<Rightarrow> jsnum \<Rightarrow> bool" where
  "js_gt str2num v n = num_lt n (to_number str2num v)"

text \<open>
  \<open>v >= n\<close> and \<open>v <= n\<close>: the negation of \<open><\<close> (of \<open>>\<close>), except that a comparison
  with not-a-number is false. The script does not use them; the specification does.
\<close>

definition js_ge :: "(string \<Rightarrow> jsnum) \<Rightarrow> jsval \<Rightarrow> jsnum \<Rightarrow> bool" where
  "js_ge str2num v n =
     (to_number str2num v \<noteq> NaN \<and> n \<noteq> NaN \<and> \<not> num_lt (to_number str2num v) n)"

definition js_le :: "(string \<Rightarrow> jsnum) \<Rightarrow> jsval \<Rightarrow> jsnum \<Rightarrow> bool" where
  "js_le str2num v n =
     (to_number str2num v \<noteq> NaN \<and> n \<noteq> NaN \<and> \<not> num_lt n (to_number str2num v))"

text \<open>Truthiness, as tested by \<open>!v\<close> and \<open>||\<close>.\<close>

fun truthy :: "jsval \<Rightarrow> bool" where
  "truthy Undefined = False"
| "truthy Null = False"
| "truthy (Boolean b) = b"
| "truthy (Number n) = (n \<noteq> NaN \<and> n \<noteq> Fin 0)"
| "truthy (String s) = (s \<noteq> [])"

text \<open>\<open>a || b\<close> and \<open>a ?? b\<close>.\<close>

definition js_or :: "jsval \<Rightarrow> jsval \<Rightarrow> jsval" where
  "js_or a b = (if truthy a then a else b)"

fun nullish :: "jsval \<Rightarrow> bool" where
  "nullish Undefined = True"
| "nullish Null = True"
| "nullish v = False"

definition coalesce :: "jsval \<Rightarrow> jsval \<Rightarrow> jsval" where
  "coalesce a b = (if nullish a then b else a)"

section \<open>The form and what a handler does to the outside\<close>

text \<open>
  \<open>frm.doc\<close> holds four scalar fields and three child tables. A child table is an array
  of rows, or \<open>undefined\<close> (\<open>None\<close>) while nothing was ever put in it. A row belongs to
  one table: \<open>frm.add_child\<close> makes a new row at each call, so tables share no row and
  a row is modelled by its value.
\<close>

record doc =
  company :: jsval
  warehouse :: jsval
  from_date :: jsval
  to_date :: jsval
  items :: "obj list option"
  negative_stock_items :: "obj list option"
  overload_items :: "obj list option"

datatype table = Items | NegativeStockItems | OverloadItems

text \<open>
  What a handler shows or sends, in the order it happens. \<open>Call\<close> is the request to
  \<open>generate_item_best_month\<close> with its four arguments; \<open>Confirm n\<close> is the dialog
  asking to reset \<open>n\<close> rows.
\<close>

datatype event =
    RefreshField table
  | SetIntro
  | Call jsval jsval jsval jsval
  | ConsoleLog
  | MsgPrint string
  | ShowAlert string string
  | Confirm nat

record form =
  doc :: doc
  events :: "event list"

text \<open>The rows of a table; \<open>t || []\<close> in the script.\<close>

definition rows_of :: "obj list option \<Rightarrow> obj list" where
  "rows_of t = (case t of None \<Rightarrow> [] | Some rs \<Rightarrow> rs)"

definition table_of :: "table \<Rightarrow> doc \<Rightarrow> obj list option" where
  "table_of t d =
     (case t of Items \<Rightarrow> items d
      | NegativeStockItems \<Rightarrow> negative_stock_items d
      | OverloadItems \<Rightarrow> overload_items d)"

definition set_table :: "table \<Rightarrow> obj list option \<Rightarrow> doc \<Rightarrow> doc" where
  "set_table t rs d =
     (case t of Items \<Rightarrow> d\<lparr>items := rs\<rparr>
      | NegativeStockItems \<Rightarrow> d\<lparr>negative_stock_items := rs\<rparr>
      | OverloadItems \<Rightarrow> d\<lparr>overload_items := rs\<rparr>)"

text \<open>
  The framework's form methods used by the script. \<open>add_child\<close> appends a row holding
  the values it is given (the framework's own bookkeeping fields of a row are left out).
\<close>

definition emit :: "event \<Rightarrow> form \<Rightarrow> form" where
  "emit e frm = frm\<lparr>events := events frm @ [e]\<rparr>"

definition clear_table :: "table \<Rightarrow> form \<Rightarrow> form" where
  "clear_table t frm = frm\<lparr>doc := set_table t (Some []) (doc frm)\<rparr>"

definition refresh_field :: "table \<Rightarrow> form \<Rightarrow> form" where
  "refresh_field t frm = emit (RefreshField t) frm"

definition add_child :: "table \<Rightarrow> obj \<Rightarrow> form \<Rightarrow> form" where
  "add_child t vals frm =
     frm\<lparr>doc := set_table t (Some (rows_of (table_of t (doc frm)) @ [vals])) (doc frm)\<rparr>"

section \<open>Calendar dates\<close>

text \<open>
  \<open>frappe.datetime\<close> hands dates around as strings and as date objects; both denote a
  calendar day, which is what the model keeps. \<open>obj_to_str\<close> writes the day as
  \<open>YYYY-MM-DD\<close>.
\<close>

record date =
  year :: int
  month :: nat
  day :: nat

definition valid_date_month :: "date \<Rightarrow> bool" where
  "valid_date_month d = (1 \<le> month d \<and> month d \<le> 12)"

definition leap_year :: "int \<Rightarrow> bool" where
  "leap_year y = (y mod 4 = 0 \<and> (y mod 100 \<noteq> 0 \<or> y mod 400 = 0))"

definition days_in_month :: "int \<Rightarrow> nat \<Rightarrow> nat" where
  "days_in_month y m =
     (if m = 2 then (if leap_year y then 29 else 28)
      else if m = 4 \<or> m = 6 \<or> m = 9 \<or> m = 11 then 30 else 31)"

text \<open>
  \<open>frappe.datetime.add_months(d, n)\<close>: the same day of the month \<open>n\<close> months away, or
  the last day of that month when it is shorter.
\<close>

definition add_months :: "date \<Rightarrow> int \<Rightarrow> date" where
  "add_months d n =
     (let t = year d * 12 + (int (month d) - 1) + n;
          y = t div 12;
          m = nat (t mod 12) + 1
      in \<lparr>year = y, month = m, day = min (day d) (days_in_month y m)\<rparr>)"

text \<open>\<open>Date.setDate(k)\<close> for a day \<open>k\<close> that the month has.\<close>

definition setDate :: "nat \<Rightarrow> date \<Rightarrow> date" where
  "setDate k d = d\<lparr>day := k\<rparr>"

definition digit :: "nat \<Rightarrow> char" where
  "digit n = ''0123456789'' ! (n mod 10)"

definition pad2 :: "nat \<Rightarrow> string" where
  "pad2 n = [digit (n div 10), digit n]"

definition pad4 :: "nat \<Rightarrow> string" where
  "pad4 n = [digit (n div 1000), digit (n div 100), digit (n div 10), digit n]"

definition obj_to_str :: "date \<Rightarrow> string" where
  "obj_to_str d = pad4 (nat (year d)) @ ''-'' @ pad2 (month d) @ ''-'' @ pad2 (day d)"

section \<open>The handlers of item_weight_measure.js\<close>

text \<open>
  \<open>onload\<close> runs \<open>setDefaultDates\<close>; \<open>today\<close> is the day \<open>frappe.datetime.get_today()\<close>
  returns. \<open>frm.set_value\<close> stores the value in the field.
\<close>

definition setDefaultDates :: "date \<Rightarrow> form \<Rightarrow> form" where
  "setDefaultDates today frm =
     (let d = add_months today (- 12);
          firstDay = setDate 1 d;
          fromStr = obj_to_str firstDay;
          frm1 = (if \<not> truthy (from_date (doc frm))
                  then frm\<lparr>doc := (doc frm)\<lparr>from_date := String fromStr\<rparr>\<rparr> else frm)
      in (if \<not> truthy (to_date (doc frm1))
          then frm1\<lparr>doc := (doc frm1)\<lparr>to_date := String (obj_to_str today)\<rparr>\<rparr> else frm1))"

definition onload :: "date \<Rightarrow> form \<Rightarrow> form" where
  "onload today frm = setDefaultDates today frm"

definition refresh :: "form \<Rightarrow> form" where
  "refresh frm = emit SetIntro frm"

text \<open>\<open>generate_btn\<close> up to the moment the request is sent.\<close>

definition generate_btn :: "form \<Rightarrow> form" where
  "generate_btn frm =
     (let frm1 = refresh_field Items (clear_table Items frm);
          frm2 = refresh_field NegativeStockItems (clear_table NegativeStockItems frm1);
          frm3 = refresh_field OverloadItems (clear_table OverloadItems frm2)
      in emit (Call (company (doc frm3)) (warehouse (doc frm3))
                    (from_date (doc frm3)) (to_date (doc frm3))) frm3)"

text \<open>The object literal passed to each \<open>add_child\<close> of the callback.\<close>

definition child_values :: "obj \<Rightarrow> obj" where
  "child_values item =
     [(''item'', get item ''item''),
      (''qty'', get item ''best_sell''),
      (''date'', get item ''date''),
      (''need'', get item ''need''),
      (''on_stock'', get item ''on_stock''),
      (''overload'', get item ''overload'')]"

text \<open>The body of \<open>forEach\<close> in the callback, for one response row.\<close>

definition distribute_row :: "(string \<Rightarrow> jsnum) \<Rightarrow> obj \<Rightarrow> form \<Rightarrow> form" where
  "distribute_row str2num item frm =
     (let frm1 = add_child Items (child_values item) frm;
          frm2 = (if js_lt str2num (get item ''on_stock'') (Fin 0)
                  then add_child NegativeStockItems (child_values item) frm1 else frm1)
      in (if js_gt str2num (get item ''overload'') (Fin 0)
          then add_child OverloadItems (child_values item) frm2 else frm2))"

fun distribute :: "(string \<Rightarrow> jsnum) \<Rightarrow> obj list \<Rightarrow> form \<Rightarrow> form" where
  "distribute str2num [] frm = frm"
| "distribute str2num (item # rest) frm =
     distribute str2num rest (distribute_row str2num item frm)"

text \<open>The callback of the request, run with \<open>r.message.results\<close>.\<close>

definition generate_callback :: "(string \<Rightarrow> jsnum) \<Rightarrow> obj list \<Rightarrow> form \<Rightarrow> form" where
  "generate_callback str2num results frm =
     refresh_field OverloadItems
       (refresh_field NegativeStockItems
         (refresh_field Items
           (distribute str2num results (emit ConsoleLog frm))))"

text \<open>
  One generation: the button, then the callback when the response arrives. The request
  freezes the form until then, so nothing else runs in between.
\<close>

definition generate :: "(string \<Rightarrow> jsnum) \<Rightarrow> obj list \<Rightarrow> form \<Rightarrow> form" where
  "generate str2num results frm = generate_callback str2num results (generate_btn frm)"

text \<open>The body of \<open>forEach\<close> in \<open>reset_to_zero_btn\<close>, for one row.\<close>

definition reset_row :: "(string \<Rightarrow> jsnum) \<Rightarrow> obj \<Rightarrow> obj" where
  "reset_row str2num r =
     (let qty = js_or (Number (to_number str2num (coalesce (get r ''qty'') (get r ''best_sell''))))
                      (Number (Fin 0))
      in put ''overload'' (Number (Fin 0))
           (put ''need'' qty
             (put ''on_stock'' (Number (Fin 0)) r)))"

text \<open>
  \<open>reset_to_zero_btn\<close>; \<open>yes\<close> tells whether the user accepts the confirmation dialog,
  whose callback does the work.
\<close>

definition reset_to_zero_btn :: "(string \<Rightarrow> jsnum) \<Rightarrow> bool \<Rightarrow> form \<Rightarrow> form" where
  "reset_to_zero_btn str2num yes frm =
     (let rows = rows_of (negative_stock_items (doc frm))
      in if length rows = 0
         then emit (ShowAlert ''No rows in Negative Stock Items.'' ''orange'') frm
         else
           (let frm1 = emit (Confirm (length rows)) frm
            in if yes
               then emit (ShowAlert ''Reset complete.'' ''green'')
                      (refresh_field NegativeStockItems
                        (frm1\<lparr>doc := (doc frm1)\<lparr>negative_stock_items :=
                                 Some (map (reset_row str2num) rows)\<rparr>\<rparr>))
               else frm1))"

section \<open>The handlers of the older script\<close>

text \<open>
  The second script of the repository registers \<open>onload\<close> and \<open>refresh\<close> as above and
  its own \<open>generate_btn\<close>, which reads rows of the shape \<open>{item_code, total_qty, ym}\<close>.
\<close>

definition legacy_generate_btn :: "form \<Rightarrow> form" where
  "legacy_generate_btn frm =
     emit (Call (company (doc frm)) (warehouse (doc frm))
                (from_date (doc frm)) (to_date (doc frm))) frm"

definition legacy_child_values :: "obj \<Rightarrow> obj" where
  "legacy_child_values item =
     [(''item'', get item ''item_code''),
      (''qty'', get item ''total_qty''),
      (''date'', get item ''ym'')]"

fun legacy_distribute :: "obj list \<Rightarrow> form \<Rightarrow> form" where
  "legacy_distribute [] frm = frm"
| "legacy_distribute (item # rest) frm =
     legacy_distribute rest (add_child Items (legacy_child_values item) frm)"

definition legacy_generate_callback :: "obj list \<Rightarrow> form \<Rightarrow> form" where
  "legacy_generate_callback results frm =
     refresh_field Items
       (legacy_distribute results (emit (MsgPrint ''Done'') (emit ConsoleLog frm)))"

definition legacy_generate :: "obj list \<Rightarrow> form \<Rightarrow> form" where
  "legacy_generate results frm = legacy_generate_callback results (legacy_generate_btn frm)"

section \<open>Notions of the specification\<close>

text \<open>
  A field is present when \<open>??\<close> would keep it: it is neither \<open>undefined\<close> nor \<open>null\<close>.
  A value is parseable when \<open>Number\<close> makes a number of it.
\<close>

definition field_present :: "obj \<Rightarrow> string \<Rightarrow> bool" where
  "field_present r k = (\<not> nullish (get r k))"

definition parseable :: "(string \<Rightarrow> jsnum) \<Rightarrow> jsval \<Rightarrow> bool" where
  "parseable str2num v = (to_number str2num v \<noteq> NaN)"

text \<open>
  The quantity of a row in the specification's words: the \<open>qty\<close> field, else the
  \<open>best_sell\<close> field when \<open>qty\<close> is absent, and \<open>0\<close> when neither is present or the
  value is not parseable.
\<close>

definition spec_qty :: "(string \<Rightarrow> jsnum) \<Rightarrow> obj \<Rightarrow> jsnum" where
  "spec_qty str2num r =
     (if field_present r ''qty''
      then (if parseable str2num (get r ''qty'') then to_number str2num (get r ''qty'') else Fin 0)
      else if field_present r ''best_sell''
      then (if parseable str2num (get r ''best_sell'')
            then to_number str2num (get r ''best_sell'') else Fin 0)
      else Fin 0)"

text \<open>
  The canonical row of a legacy row in the specification's words: \<open>item_code\<close>,
  \<open>total_qty\<close> and \<open>ym\<close> renamed to \<open>item\<close>, \<open>best_sell\<close> and \<open>date\<close>.
\<close>

definition spec_normalize_legacy :: "obj \<Rightarrow> obj" where
  "spec_normalize_legacy r =
     [(''item'', get r ''item_code''),
      (''best_sell'', get r ''total_qty''),
      (''date'', get r ''ym'')]"

text \<open>
  The six values of a response row in the data model's order (\<open>item\<close>, \<open>best_sell\<close>,
  \<open>date\<close>, \<open>need\<close>, \<open>on_stock\<close>, \<open>overload\<close>), and the six values a table row shows
  for them, the quantity under \<open>qty\<close>. A table row is the derived row of a response row
  when the two agree.
\<close>

definition result_fields :: "obj \<Rightarrow> jsval \<times> jsval \<times> jsval \<times> jsval \<times> jsval \<times> jsval" where
  "result_fields r =
     (get r ''item'', get r ''best_sell'', get r ''date'', get r ''need'', get r ''on_stock'',
      get r ''overload'')"

definition row_fields :: "obj \<Rightarrow> jsval \<times> jsval \<times> jsval \<times> jsval \<times> jsval \<times> jsval" where
  "row_fields c =
     (get c ''item'', get c ''qty'', get c ''date'', get c ''need'', get c ''on_stock'',
      get c ''overload'')"

text \<open>The events that reach the external system.\<close>

fun is_call :: "event \<Rightarrow> bool" where
  "is_call (Call c w f t) = True"
| "is_call e = False"

section \<open>Example data\<close>

text \<open>The response and the query of the specification's end-to-end example.\<close>

definition example_results :: "obj list" where
  "example_results =
     [[(''item'', String ''A''), (''best_sell'', Number (Fin 10)), (''date'', String ''2024-06''),
       (''need'', Number (Fin 8)), (''on_stock'', Number (Fin (- 2))), (''overload'', Number (Fin 0))],
      [(''item'', String ''B''), (''best_sell'', Number (Fin 5)), (''date'', String ''2024-03''),
       (''need'', Number (Fin 5)), (''on_stock'', Number (Fin 0)), (''overload'', Number (Fin 3))]]"

definition example_form :: form where
  "example_form =
     \<lparr>doc = \<lparr>company = String ''C1'', warehouse = Null,
             from_date = String ''2024-01-01'', to_date = String ''2024-12-31'',
             items = None, negative_stock_items = None, overload_items = None\<rparr>,
      events = []\<rparr>"

text \<open>A response of the legacy shape.\<close>

definition legacy_example_results :: "obj list" where
  "legacy_example_results =
     [[(''item_code'', String ''A''), (''total_qty'', Number (Fin 10)), (''ym'', String ''2024-06'')]]"

text \<open>A form whose \<open>items\<close> table still holds a row of an earlier generation.\<close>

definition stale_form :: form where
  "stale_form = example_form\<lparr>doc := (doc example_form)\<lparr>items :=
       Some [[(''item'', String ''Z''), (''qty'', Number (Fin 1)), (''date'', String ''2023-01'')]]\<rparr>\<rparr>"

text \<open>The rows of the specification's reset example.\<close>

definition reset_example_form :: form where
  "reset_example_form = example_form\<lparr>doc := (doc example_form)\<lparr>negative_stock_items :=
       Some [[(''qty'', Number (Fin 5)), (''on_stock'', Number (Fin (- 3))),
              (''need'', Number (Fin 2)), (''overload'', Number (Fin 0))]]\<rparr>\<rparr>"

text \<open>A form whose two dates are unset, one \<open>undefined\<close> and one the empty string.\<close>

definition unset_form :: form where
  "unset_form =
     example_form\<lparr>doc := (doc example_form)\<lparr>from_date := Undefined, to_date := String []\<rparr>\<rparr>"

section \<open>Properties of the framework model and of the loops\<close>

lemma get_put: "get (put k v ob) k' = (if k' = k then v else get ob k')"
  by (simp add: get_def put_def update_conv')

lemma rows_of_Some: "rows_of (Some rs) = rs"
  by (simp add: rows_of_def)

lemma emit_doc: "doc (emit e frm) = doc frm"
  by (simp add: emit_def)

lemma get_child_values:
  "get (child_values r) ''item'' = get r ''item''"
  "get (child_values r) ''qty'' = get r ''best_sell''"
  "get (child_values r) ''date'' = get r ''date''"
  "get (child_values r) ''need'' = get r ''need''"
  "get (child_values r) ''on_stock'' = get r ''on_stock''"
  "get (child_values r) ''overload'' = get r ''overload''"
  "get (child_values r) ''best_sell'' = Undefined"
  by (simp_all add: child_values_def get_def)

lemma row_fields_child_values: "row_fields (child_values r) = result_fields r"
  by (simp add: row_fields_def result_fields_def get_child_values)

lemma keys_child_values:
  "map fst (child_values r) = [''item'', ''qty'', ''date'', ''need'', ''on_stock'', ''overload'']"
  by (simp add: child_values_def)

lemma get_legacy_child_values:
  "get (legacy_child_values r) ''item'' = get r ''item_code''"
  "get (legacy_child_values r) ''qty'' = get r ''total_qty''"
  "get (legacy_child_values r) ''date'' = get r ''ym''"
  "get (legacy_child_values r) ''need'' = Undefined"
  "get (legacy_child_values r) ''on_stock'' = Undefined"
  "get (legacy_child_values r) ''overload'' = Undefined"
  by (simp_all add: legacy_child_values_def get_def)

lemma get_spec_normalize_legacy:
  "get (spec_normalize_legacy r) ''item'' = get r ''item_code''"
  "get (spec_normalize_legacy r) ''best_sell'' = get r ''total_qty''"
  "get (spec_normalize_legacy r) ''date'' = get r ''ym''"
  by (simp_all add: spec_normalize_legacy_def get_def)

text \<open>One pass of the callback's loop body appends to each table what its test lets through.\<close>

lemma distribute_row_items:
  "rows_of (items (doc (distribute_row sn r frm))) = rows_of (items (doc frm)) @ [child_values r]"
  by (simp add: distribute_row_def Let_def add_child_def set_table_def table_of_def rows_of_def)

lemma distribute_row_negative:
  "rows_of (negative_stock_items (doc (distribute_row sn r frm))) =
     rows_of (negative_stock_items (doc frm)) @
       (if js_lt sn (get r ''on_stock'') (Fin 0) then [child_values r] else [])"
  by (simp add: distribute_row_def Let_def add_child_def set_table_def table_of_def rows_of_def)

lemma distribute_row_overload:
  "rows_of (overload_items (doc (distribute_row sn r frm))) =
     rows_of (overload_items (doc frm)) @
       (if js_gt sn (get r ''overload'') (Fin 0) then [child_values r] else [])"
  by (simp add: distribute_row_def Let_def add_child_def set_table_def table_of_def rows_of_def)

text \<open>The whole loop, by induction on the response with the form generalised.\<close>

lemma distribute_items:
  "rows_of (items (doc (distribute sn rs frm))) = rows_of (items (doc frm)) @ map child_values rs"
  by (induction rs arbitrary: frm) (simp_all add: distribute_row_items)

lemma distribute_negative:
  "rows_of (negative_stock_items (doc (distribute sn rs frm))) =
     rows_of (negative_stock_items (doc frm)) @
       map child_values (filter (\<lambda>r. js_lt sn (get r ''on_stock'') (Fin 0)) rs)"
  by (induction rs arbitrary: frm) (simp_all add: distribute_row_negative)

lemma distribute_overload:
  "rows_of (overload_items (doc (distribute sn rs frm))) =
     rows_of (overload_items (doc frm)) @
       map child_values (filter (\<lambda>r. js_gt sn (get r ''overload'') (Fin 0)) rs)"
  by (induction rs arbitrary: frm) (simp_all add: distribute_row_overload)

text \<open>
  The button leaves the three tables empty and sends the request last, after the three
  refreshes.
\<close>

lemma generate_btn_tables:
  "items (doc (generate_btn frm)) = Some []"
  "negative_stock_items (doc (generate_btn frm)) = Some []"
  "overload_items (doc (generate_btn frm)) = Some []"
  by (simp_all add: generate_btn_def Let_def refresh_field_def emit_def clear_table_def
      set_table_def)

lemma generate_btn_events:
  "events (generate_btn frm) =
     events frm @ [RefreshField Items, RefreshField NegativeStockItems, RefreshField OverloadItems,
                   Call (company (doc frm)) (warehouse (doc frm))
                        (from_date (doc frm)) (to_date (doc frm))]"
  by (simp add: generate_btn_def Let_def refresh_field_def emit_def clear_table_def set_table_def)

lemma generate_callback_doc:
  "doc (generate_callback sn rs frm) = doc (distribute sn rs (emit ConsoleLog frm))"
  by (simp add: generate_callback_def refresh_field_def emit_def)

lemma generate_items:
  "rows_of (items (doc (generate sn rs frm))) = map child_values rs"
  by (simp add: generate_def generate_callback_doc distribute_items emit_doc
      generate_btn_tables rows_of_Some)

lemma generate_negative:
  "rows_of (negative_stock_items (doc (generate sn rs frm))) =
     map child_values (filter (\<lambda>r. js_lt sn (get r ''on_stock'') (Fin 0)) rs)"
  by (simp add: generate_def generate_callback_doc distribute_negative emit_doc
      generate_btn_tables rows_of_Some)

lemma generate_overload:
  "rows_of (overload_items (doc (generate sn rs frm))) =
     map child_values (filter (\<lambda>r. js_gt sn (get r ''overload'') (Fin 0)) rs)"
  by (simp add: generate_def generate_callback_doc distribute_overload emit_doc
      generate_btn_tables rows_of_Some)

lemma generate_empty:
  "items (doc (generate sn [] frm)) = Some [] \<and>
   negative_stock_items (doc (generate sn [] frm)) = Some [] \<and>
   overload_items (doc (generate sn [] frm)) = Some []"
  by (simp add: generate_def generate_callback_doc emit_doc generate_btn_tables)

text \<open>The older handler appends to \<open>items\<close> and touches no other table.\<close>

lemma legacy_distribute_items:
  "rows_of (items (doc (legacy_distribute rs frm))) =
     rows_of (items (doc frm)) @ map legacy_child_values rs"
  by (induction rs arbitrary: frm)
     (simp_all add: add_child_def set_table_def table_of_def rows_of_def)

lemma legacy_distribute_others:
  "negative_stock_items (doc (legacy_distribute rs frm)) = negative_stock_items (doc frm) \<and>
   overload_items (doc (legacy_distribute rs frm)) = overload_items (doc frm)"
  by (induction rs arbitrary: frm) (simp_all add: add_child_def set_table_def)

lemma legacy_generate_doc:
  "doc (legacy_generate rs frm) =
     doc (legacy_distribute rs
            (emit (MsgPrint ''Done'') (emit ConsoleLog (legacy_generate_btn frm))))"
  by (simp add: legacy_generate_def legacy_generate_callback_def refresh_field_def emit_def)

lemma legacy_generate_items:
  "rows_of (items (doc (legacy_generate rs frm))) =
     rows_of (items (doc frm)) @ map legacy_child_values rs"
  by (simp add: legacy_generate_doc legacy_distribute_items emit_doc legacy_generate_btn_def)

lemma legacy_generate_others:
  "negative_stock_items (doc (legacy_generate rs frm)) = negative_stock_items (doc frm) \<and>
   overload_items (doc (legacy_generate rs frm)) = overload_items (doc frm)"
  by (simp add: legacy_generate_doc legacy_distribute_others emit_doc legacy_generate_btn_def)

text \<open>Comparisons with a number exclude their opposite.\<close>

lemma lt_not_ge: "js_lt sn v n \<Longrightarrow> \<not> js_ge sn v n"
  by (simp add: js_lt_def js_ge_def)

lemma gt_not_le: "js_gt sn v n \<Longrightarrow> \<not> js_le sn v n"
  by (simp add: js_gt_def js_le_def)

text \<open>The quantity computed by the reset is the specification's.\<close>

lemma nullish_to_number: "nullish v \<Longrightarrow> to_number sn v = NaN \<or> to_number sn v = Fin 0"
  by (cases v) simp_all

lemma qty_value:
  "js_or (Number (to_number sn (coalesce (get r ''qty'') (get r ''best_sell'')))) (Number (Fin 0)) =
     Number (spec_qty sn r)"
proof (cases "nullish (get r ''qty'')")
  case False
  then show ?thesis
    by (simp add: spec_qty_def field_present_def parseable_def js_or_def coalesce_def)
next
  case q: True
  show ?thesis
  proof (cases "nullish (get r ''best_sell'')")
    case False
    with q show ?thesis
      by (simp add: spec_qty_def field_present_def parseable_def js_or_def coalesce_def)
  next
    case True
    with q nullish_to_number [OF True, of sn] show ?thesis
      by (auto simp add: spec_qty_def field_present_def js_or_def coalesce_def)
  qed
qed

lemma reset_row_get:
  "get (reset_row sn r) k =
     (if k = ''overload'' then Number (Fin 0)
      else if k = ''need'' then Number (spec_qty sn r)
      else if k = ''on_stock'' then Number (Fin 0)
      else get r k)"
  by (simp add: reset_row_def Let_def get_put qty_value)

lemma spec_qty_reset_row: "spec_qty sn (reset_row sn r) = spec_qty sn r"
  by (simp add: spec_qty_def field_present_def reset_row_get)

lemma reset_yes_rows:
  "rows_of (negative_stock_items (doc frm)) \<noteq> [] \<Longrightarrow>
   rows_of (negative_stock_items (doc (reset_to_zero_btn sn True frm))) =
     map (reset_row sn) (rows_of (negative_stock_items (doc frm)))"
  by (simp add: reset_to_zero_btn_def Let_def refresh_field_def emit_def rows_of_def)

text \<open>Twelve months back is the same month of the year before.\<close>

lemma month_shift:
  fixes r y :: int
  assumes "0 \<le> r" and "r < 12"
  shows "(r + 12 * y) div 12 = y" and "(r + 12 * y) mod 12 = r"
  using assms by (simp_all add: div_pos_pos_trivial mod_pos_pos_trivial)

lemma add_months_minus_12:
  assumes "valid_date_month d"
  shows "add_months d (- 12) =
     \<lparr>year = year d - 1, month = month d,
      day = min (day d) (days_in_month (year d - 1) (month d))\<rparr>"
proof -
  define r where "r = int (month d) - 1"
  define t where "t = year d * 12 + (int (month d) - 1) + - 12"
  from assms have r: "0 \<le> r" "r < 12"
    by (simp_all add: valid_date_month_def r_def)
  have t: "t = r + 12 * (year d - 1)"
    by (simp add: t_def r_def)
  have "t div 12 = year d - 1"
    by (simp only: t month_shift [OF r])
  moreover have "t mod 12 = r"
    by (simp only: t month_shift [OF r])
  then have "nat (t mod 12) + 1 = month d"
    using r by (simp add: r_def)
  ultimately show ?thesis
    by (simp add: add_months_def Let_def t_def)
qed

section \<open>The claims\<close>

subsection \<open>Distribution of a response\<close>

text \<open>
  C1. After a generation, every response row with \<open>on_stock < 0\<close> has a row carrying its
  six values in \<open>items\<close> and one in \<open>negative_stock_items\<close>, every response row with
  \<open>overload > 0\<close> has one in \<open>items\<close> and one in \<open>overload_items\<close>, no row of
  \<open>negative_stock_items\<close> has \<open>on_stock >= 0\<close>, and no row of \<open>overload_items\<close> has
  \<open>overload <= 0\<close>.
\<close>

theorem distribution_membership:
  "(\<forall>r \<in> set results.
      (js_lt sn (get r ''on_stock'') (Fin 0) \<longrightarrow>
         (\<exists>c \<in> set (rows_of (items (doc (generate sn results frm)))).
            row_fields c = result_fields r) \<and>
         (\<exists>c \<in> set (rows_of (negative_stock_items (doc (generate sn results frm)))).
            row_fields c = result_fields r)) \<and>
      (js_gt sn (get r ''overload'') (Fin 0) \<longrightarrow>
         (\<exists>c \<in> set (rows_of (items (doc (generate sn results frm)))).
            row_fields c = result_fields r) \<and>
         (\<exists>c \<in> set (rows_of (overload_items (doc (generate sn results frm)))).
            row_fields c = result_fields r))) \<and>
   (\<forall>c \<in> set (rows_of (negative_stock_items (doc (generate sn results frm)))).
      \<not> js_ge sn (get c ''on_stock'') (Fin 0)) \<and>
   (\<forall>c \<in> set (rows_of (overload_items (doc (generate sn results frm)))).
      \<not> js_le sn (get c ''overload'') (Fin 0))"
proof -
  let ?items = "rows_of (items (doc (generate sn results frm)))"
  let ?neg = "rows_of (negative_stock_items (doc (generate sn results frm)))"
  let ?over = "rows_of (overload_items (doc (generate sn results frm)))"
  have in_items: "\<exists>c \<in> set ?items. row_fields c = result_fields r"
    if "r \<in> set results" for r
  proof -
    from that have "child_values r \<in> set ?items"
      by (simp add: generate_items)
    then show ?thesis
      using row_fields_child_values by blast
  qed
  have in_neg: "\<exists>c \<in> set ?neg. row_fields c = result_fields r"
    if "r \<in> set results" and "js_lt sn (get r ''on_stock'') (Fin 0)" for r
  proof -
    from that have "child_values r \<in> set ?neg"
      by (simp add: generate_negative)
    then show ?thesis
      using row_fields_child_values by blast
  qed
  have in_over: "\<exists>c \<in> set ?over. row_fields c = result_fields r"
    if "r \<in> set results" and "js_gt sn (get r ''overload'') (Fin 0)" for r
  proof -
    from that have "child_values r \<in> set ?over"
      by (simp add: generate_overload)
    then show ?thesis
      using row_fields_child_values by blast
  qed
  have not_ge: "\<not> js_ge sn (get c ''on_stock'') (Fin 0)" if "c \<in> set ?neg" for c
  proof -
    from that obtain r where "c = child_values r" "js_lt sn (get r ''on_stock'') (Fin 0)"
      by (auto simp: generate_negative)
    then show ?thesis
      by (simp add: get_child_values lt_not_ge)
  qed
  have not_le: "\<not> js_le sn (get c ''overload'') (Fin 0)" if "c \<in> set ?over" for c
  proof -
    from that obtain r where "c = child_values r" "js_gt sn (get r ''overload'') (Fin 0)"
      by (auto simp: generate_overload)
    then show ?thesis
      by (simp add: get_child_values gt_not_le)
  qed
  from in_items in_neg in_over not_ge not_le show ?thesis
    by blast
qed

text \<open>
  On the example response: row A has a negative stock and \<open>negative_stock_items\<close> holds
  a row with its values, row B has an overload and \<open>overload_items\<close> holds a row with
  its values.
\<close>

theorem distribution_membership_witness:
  "js_lt (\<lambda>s. NaN) (get (example_results ! 0) ''on_stock'') (Fin 0) \<and>
   (\<exists>c \<in> set (rows_of (negative_stock_items
                 (doc (generate (\<lambda>s. NaN) example_results example_form)))).
      row_fields c =
        (String ''A'', Number (Fin 10), String ''2024-06'', Number (Fin 8), Number (Fin (- 2)),
         Number (Fin 0))) \<and>
   js_gt (\<lambda>s. NaN) (get (example_results ! 1) ''overload'') (Fin 0) \<and>
   (\<exists>c \<in> set (rows_of (overload_items
                 (doc (generate (\<lambda>s. NaN) example_results example_form)))).
      row_fields c =
        (String ''B'', Number (Fin 5), String ''2024-03'', Number (Fin 5), Number (Fin 0),
         Number (Fin 3))) \<and>
   \<not> js_ge (\<lambda>s. NaN)
       (get (hd (rows_of (negative_stock_items
                   (doc (generate (\<lambda>s. NaN) example_results example_form)))))
          ''on_stock'') (Fin 0)"
proof -
  let ?neg = "rows_of (negative_stock_items (doc (generate (\<lambda>s. NaN) example_results example_form)))"
  have a: "example_results ! 0 \<in> set example_results" "example_results ! 1 \<in> set example_results"
    by (simp_all add: example_results_def)
  have lt: "js_lt (\<lambda>s. NaN) (get (example_results ! 0) ''on_stock'') (Fin 0)"
    by (simp add: example_results_def get_def js_lt_def)
  have gt: "js_gt (\<lambda>s. NaN) (get (example_results ! 1) ''overload'') (Fin 0)"
    by (simp add: example_results_def get_def js_gt_def)
  have fa: "result_fields (example_results ! 0) =
      (String ''A'', Number (Fin 10), String ''2024-06'', Number (Fin 8), Number (Fin (- 2)),
       Number (Fin 0))"
    by (simp add: result_fields_def example_results_def get_def)
  have fb: "result_fields (example_results ! 1) =
      (String ''B'', Number (Fin 5), String ''2024-03'', Number (Fin 5), Number (Fin 0),
       Number (Fin 3))"
    by (simp add: result_fields_def example_results_def get_def)
  have "?neg \<noteq> []"
    using lt by (simp add: generate_negative example_results_def)
  then have h: "hd ?neg \<in> set ?neg"
    by simp
  from distribution_membership [of example_results "\<lambda>s. NaN" example_form] a lt gt h
  have "(\<exists>c \<in> set ?neg. row_fields c = result_fields (example_results ! 0))"
    and "(\<exists>c \<in> set (rows_of (overload_items
             (doc (generate (\<lambda>s. NaN) example_results example_form)))).
           row_fields c = result_fields (example_results ! 1))"
    and "\<not> js_ge (\<lambda>s. NaN) (get (hd ?neg) ''on_stock'') (Fin 0)"
    by blast+
  with lt gt show ?thesis
    by (simp only: fa fb) simp
qed

text \<open>
  C2. After a generation \<open>items\<close> holds exactly one row per response row, carrying its
  six values, and each of the three tables lists its rows in the order of the response.
\<close>

theorem distribution_order:
  "map row_fields (rows_of (items (doc (generate sn results frm)))) = map result_fields results \<and>
   length (rows_of (items (doc (generate sn results frm)))) = length results \<and>
   map row_fields (rows_of (negative_stock_items (doc (generate sn results frm)))) =
     map result_fields (filter (\<lambda>r. js_lt sn (get r ''on_stock'') (Fin 0)) results) \<and>
   map row_fields (rows_of (overload_items (doc (generate sn results frm)))) =
     map result_fields (filter (\<lambda>r. js_gt sn (get r ''overload'') (Fin 0)) results)"
  by (simp add: generate_items generate_negative generate_overload row_fields_child_values
      comp_def)

text \<open>The example: two rows in \<open>items\<close>, A before B; A alone is negative, B alone overloaded.\<close>

theorem distribution_order_witness:
  "map row_fields (rows_of (items (doc (generate (\<lambda>s. NaN) example_results example_form)))) =
     [(String ''A'', Number (Fin 10), String ''2024-06'', Number (Fin 8), Number (Fin (- 2)),
       Number (Fin 0)),
      (String ''B'', Number (Fin 5), String ''2024-03'', Number (Fin 5), Number (Fin 0),
       Number (Fin 3))] \<and>
   length (rows_of (items (doc (generate (\<lambda>s. NaN) example_results example_form)))) = 2 \<and>
   map row_fields
     (rows_of (negative_stock_items (doc (generate (\<lambda>s. NaN) example_results example_form)))) =
     [(String ''A'', Number (Fin 10), String ''2024-06'', Number (Fin 8), Number (Fin (- 2)),
       Number (Fin 0))] \<and>
   map row_fields
     (rows_of (overload_items (doc (generate (\<lambda>s. NaN) example_results example_form)))) =
     [(String ''B'', Number (Fin 5), String ''2024-03'', Number (Fin 5), Number (Fin 0),
       Number (Fin 3))]"
  using distribution_order [of "\<lambda>s. NaN" example_results example_form]
  by (simp add: example_results_def result_fields_def get_def js_lt_def js_gt_def)

subsection \<open>Clearing before a generation\<close>

text \<open>
  C3. Every generation should clear the three tables before the request, so that an empty
  response leaves them empty. The handler of item_weight_measure.js does
  (\<open>generate_btn_tables\<close>, \<open>generate_btn_events\<close>, \<open>generate_empty\<close>); the older
  script's handler clears nothing: on a form that still shows a row and an empty
  response, the first leaves \<open>items\<close> empty and the second leaves the stale row.
\<close>

theorem legacy_generate_keeps_stale_rows:
  "rows_of (items (doc (generate (\<lambda>s. NaN) [] stale_form))) = [] \<and>
   rows_of (items (doc (legacy_generate [] stale_form))) =
     [[(''item'', String ''Z''), (''qty'', Number (Fin 1)), (''date'', String ''2023-01'')]]"
  by (simp add: generate_items legacy_generate_items stale_form_def example_form_def rows_of_Some)

subsection \<open>Reset to zero\<close>

text \<open>
  C4. When \<open>negative_stock_items\<close> is not empty and the user confirms, every row ends
  with \<open>on_stock = 0\<close>, \<open>overload = 0\<close> and \<open>need\<close> equal to its quantity, which is the
  \<open>qty\<close> field, else \<open>best_sell\<close> when \<open>qty\<close> is absent, and \<open>0\<close> when neither is
  present or parseable. The quantities are those the rows had before the reset.
\<close>

theorem reset_to_zero_rows:
  assumes "rows_of (negative_stock_items (doc frm)) \<noteq> []"
  shows "(\<forall>r \<in> set (rows_of (negative_stock_items (doc (reset_to_zero_btn sn True frm)))).
           get r ''on_stock'' = Number (Fin 0) \<and>
           get r ''need'' = Number (spec_qty sn r) \<and>
           get r ''overload'' = Number (Fin 0)) \<and>
         map (spec_qty sn) (rows_of (negative_stock_items (doc (reset_to_zero_btn sn True frm)))) =
           map (spec_qty sn) (rows_of (negative_stock_items (doc frm)))"
  using assms by (simp add: reset_yes_rows reset_row_get spec_qty_reset_row)

text \<open>The specification's example: a row with \<open>qty = 5\<close> ends with \<open>need = 5\<close>.\<close>

theorem reset_to_zero_rows_witness:
  "rows_of (negative_stock_items (doc reset_example_form)) \<noteq> [] \<and>
   length (rows_of (negative_stock_items
             (doc (reset_to_zero_btn (\<lambda>s. NaN) True reset_example_form)))) = 1 \<and>
   get (hd (rows_of (negative_stock_items
              (doc (reset_to_zero_btn (\<lambda>s. NaN) True reset_example_form))))) ''on_stock'' =
     Number (Fin 0) \<and>
   get (hd (rows_of (negative_stock_items
              (doc (reset_to_zero_btn (\<lambda>s. NaN) True reset_example_form))))) ''need'' =
     Number (Fin 5) \<and>
   get (hd (rows_of (negative_stock_items
              (doc (reset_to_zero_btn (\<lambda>s. NaN) True reset_example_form))))) ''overload'' =
     Number (Fin 0)"
proof -
  let ?post = "rows_of (negative_stock_items
                 (doc (reset_to_zero_btn (\<lambda>s. NaN) True reset_example_form)))"
  have ne: "rows_of (negative_stock_items (doc reset_example_form)) \<noteq> []"
    by (simp add: reset_example_form_def rows_of_def)
  have q: "map (spec_qty (\<lambda>s. NaN)) (rows_of (negative_stock_items (doc reset_example_form))) =
             [Fin 5]"
    by (simp add: reset_example_form_def rows_of_def spec_qty_def field_present_def
        parseable_def get_def)
  from reset_to_zero_rows [OF ne, of "\<lambda>s. NaN"]
  have A: "\<forall>r \<in> set ?post. get r ''on_stock'' = Number (Fin 0) \<and>
             get r ''need'' = Number (spec_qty (\<lambda>s. NaN) r) \<and> get r ''overload'' = Number (Fin 0)"
    and B: "map (spec_qty (\<lambda>s. NaN)) ?post = [Fin 5]"
    by (simp_all add: q)
  from B have len: "length ?post = 1"
    by (metis length_map length_Cons list.size(3) One_nat_def)
  then have "?post \<noteq> []"
    by auto
  then have h: "hd ?post \<in> set ?post" and "map (spec_qty (\<lambda>s. NaN)) ?post ! 0 = spec_qty (\<lambda>s. NaN) (hd ?post)"
    by (simp_all add: hd_conv_nth)
  with B have "spec_qty (\<lambda>s. NaN) (hd ?post) = Fin 5"
    by simp
  with A h ne len show ?thesis by simp
qed

text \<open>
  C5. On an empty \<open>negative_stock_items\<close> table the reset shows one alert and changes
  nothing in the document, whatever the user would have answered.
\<close>

theorem reset_to_zero_empty:
  "rows_of (negative_stock_items (doc frm)) = [] \<Longrightarrow>
   doc (reset_to_zero_btn sn yes frm) = doc frm \<and>
   events (reset_to_zero_btn sn yes frm) =
     events frm @ [ShowAlert ''No rows in Negative Stock Items.'' ''orange'']"
  by (simp add: reset_to_zero_btn_def Let_def emit_def)

theorem reset_to_zero_empty_witness:
  "rows_of (negative_stock_items (doc example_form)) = [] \<and>
   doc (reset_to_zero_btn (\<lambda>s. NaN) True example_form) = doc example_form \<and>
   events (reset_to_zero_btn (\<lambda>s. NaN) True example_form) =
     [ShowAlert ''No rows in Negative Stock Items.'' ''orange'']"
proof -
  have e: "rows_of (negative_stock_items (doc example_form)) = []"
    by (simp add: example_form_def rows_of_def)
  from reset_to_zero_empty [OF e, of "\<lambda>s. NaN" True] e show ?thesis
    by (simp add: example_form_def)
qed

text \<open>
  C9. A reset changes the document in \<open>negative_stock_items\<close> only, where it keeps the
  number of rows: \<open>items\<close> and \<open>overload_items\<close> are as before, and no request is sent.
\<close>

theorem reset_to_zero_frame:
  "doc (reset_to_zero_btn sn yes frm) =
     (doc frm)\<lparr>negative_stock_items := negative_stock_items (doc (reset_to_zero_btn sn yes frm))\<rparr> \<and>
   items (doc (reset_to_zero_btn sn yes frm)) = items (doc frm) \<and>
   overload_items (doc (reset_to_zero_btn sn yes frm)) = overload_items (doc frm) \<and>
   length (rows_of (negative_stock_items (doc (reset_to_zero_btn sn yes frm)))) =
     length (rows_of (negative_stock_items (doc frm))) \<and>
   filter is_call (events (reset_to_zero_btn sn yes frm)) = filter is_call (events frm)"
  by (simp add: reset_to_zero_btn_def Let_def refresh_field_def emit_def rows_of_def)

text \<open>
  After the example generation row A is in \<open>items\<close> and in \<open>negative_stock_items\<close>;
  a confirmed reset leaves the copy in \<open>items\<close> with its stock of \<open>-2\<close>, and the only
  request on record is the generation's.
\<close>

theorem reset_to_zero_frame_witness:
  "items (doc (reset_to_zero_btn (\<lambda>s. NaN) True
                 (generate (\<lambda>s. NaN) example_results example_form))) =
     Some (map child_values example_results) \<and>
   get (child_values (example_results ! 0)) ''on_stock'' = Number (Fin (- 2)) \<and>
   overload_items (doc (reset_to_zero_btn (\<lambda>s. NaN) True
                          (generate (\<lambda>s. NaN) example_results example_form))) =
     Some [child_values (example_results ! 1)] \<and>
   filter is_call (events (reset_to_zero_btn (\<lambda>s. NaN) True
                             (generate (\<lambda>s. NaN) example_results example_form))) =
     [Call (String ''C1'') Null (String ''2024-01-01'') (String ''2024-12-31'')]"
proof -
  have g: "items (doc (generate (\<lambda>s. NaN) example_results example_form)) =
             Some (map child_values example_results)"
    "overload_items (doc (generate (\<lambda>s. NaN) example_results example_form)) =
             Some [child_values (example_results ! 1)]"
    "filter is_call (events (generate (\<lambda>s. NaN) example_results example_form)) =
             [Call (String ''C1'') Null (String ''2024-01-01'') (String ''2024-12-31'')]"
    by (simp_all add: generate_def generate_callback_def generate_btn_def refresh_field_def
        emit_def clear_table_def add_child_def set_table_def table_of_def rows_of_def
        distribute_row_def Let_def example_results_def example_form_def js_lt_def js_gt_def get_def)
  have s: "get (child_values (example_results ! 0)) ''on_stock'' = Number (Fin (- 2))"
    by (simp add: child_values_def example_results_def get_def)
  from reset_to_zero_frame [of "\<lambda>s. NaN" True "generate (\<lambda>s. NaN) example_results example_form"] g s
  show ?thesis by simp
qed

subsection \<open>Default dates\<close>

text \<open>
  C6. When both dates are unset, \<open>onload\<close> sets \<open>to_date\<close> to today and \<open>from_date\<close>
  to the first day of the same month one year earlier, for every day \<open>today\<close> of a
  month from 1 to 12.
\<close>

theorem default_dates_when_unset:
  assumes "\<not> truthy (from_date (doc frm))" and "\<not> truthy (to_date (doc frm))"
    and "valid_date_month today"
  shows "to_date (doc (onload today frm)) = String (obj_to_str today) \<and>
         from_date (doc (onload today frm)) =
           String (obj_to_str \<lparr>year = year today - 1, month = month today, day = 1\<rparr>)"
  using assms by (simp add: onload_def setDefaultDates_def Let_def add_months_minus_12 setDate_def)

text \<open>On 29 February 2024 the range runs from 1 February 2023.\<close>

theorem default_dates_when_unset_witness:
  "\<not> truthy (from_date (doc unset_form)) \<and> \<not> truthy (to_date (doc unset_form)) \<and>
   valid_date_month \<lparr>year = 2024, month = 2, day = 29\<rparr> \<and>
   to_date (doc (onload \<lparr>year = 2024, month = 2, day = 29\<rparr> unset_form)) = String ''2024-02-29'' \<and>
   from_date (doc (onload \<lparr>year = 2024, month = 2, day = 29\<rparr> unset_form)) = String ''2023-02-01''"
proof -
  have u: "\<not> truthy (from_date (doc unset_form))" "\<not> truthy (to_date (doc unset_form))"
    by (simp_all add: unset_form_def)
  have v: "valid_date_month \<lparr>year = 2024, month = 2, day = 29\<rparr>"
    by (simp add: valid_date_month_def)
  from default_dates_when_unset [OF u v] u v show ?thesis
    by (simp add: obj_to_str_def pad4_def pad2_def digit_def)
qed

text \<open>
  C7. A date field that holds a value (a truthy one, as every date string is) is left as
  it is by \<open>onload\<close>.
\<close>

theorem default_dates_keep_set_fields:
  "(truthy (from_date (doc frm)) \<longrightarrow> from_date (doc (onload today frm)) = from_date (doc frm)) \<and>
   (truthy (to_date (doc frm)) \<longrightarrow> to_date (doc (onload today frm)) = to_date (doc frm))"
  by (simp add: onload_def setDefaultDates_def Let_def)

theorem default_dates_keep_set_fields_witness:
  "truthy (from_date (doc example_form)) \<and> truthy (to_date (doc example_form)) \<and>
   from_date (doc (onload \<lparr>year = 2024, month = 2, day = 29\<rparr> example_form)) =
     String ''2024-01-01'' \<and>
   to_date (doc (onload \<lparr>year = 2024, month = 2, day = 29\<rparr> example_form)) =
     String ''2024-12-31''"
proof -
  have t: "truthy (from_date (doc example_form))" "truthy (to_date (doc example_form))"
    by (simp_all add: example_form_def)
  from default_dates_keep_set_fields [of example_form "\<lparr>year = 2024, month = 2, day = 29\<rparr>"] t
  show ?thesis by (simp add: example_form_def)
qed

subsection \<open>The two response shapes\<close>

text \<open>
  C8, as stated: a legacy response gives the same three tables as its modern-shape
  equivalent. It does not. The handler of item_weight_measure.js reads the modern names
  only, so on a legacy row the \<open>item\<close> it stores is \<open>undefined\<close>; the older handler
  clears nothing, so on a form that still shows a row its \<open>items\<close> table is longer.
\<close>

theorem legacy_shape_counterexample:
  "map (\<lambda>c. get c ''item'')
     (rows_of (items (doc (generate (\<lambda>s. NaN) legacy_example_results example_form)))) \<noteq>
   map (\<lambda>c. get c ''item'')
     (rows_of (items (doc (generate (\<lambda>s. NaN) (map spec_normalize_legacy legacy_example_results)
                            example_form)))) \<and>
   length (rows_of (items (doc (legacy_generate legacy_example_results stale_form)))) \<noteq>
   length (rows_of (items (doc (generate (\<lambda>s. NaN)
                                  (map spec_normalize_legacy legacy_example_results) stale_form))))"
  by (simp add: generate_items legacy_generate_items child_values_def spec_normalize_legacy_def
      legacy_example_results_def stale_form_def example_form_def rows_of_Some get_def)

text \<open>
  C8, amended: each shape has its own handler and neither normalises. From an empty
  \<open>items\<close> table the older handler, given a legacy response, fills \<open>items\<close> with rows
  whose \<open>item\<close>, \<open>qty\<close> and \<open>date\<close> are those the modern handler stores for the
  renamed response; its rows have no \<open>need\<close>, \<open>on_stock\<close> or \<open>overload\<close>, and it
  leaves \<open>negative_stock_items\<close> and \<open>overload_items\<close> as they were.
\<close>

theorem legacy_handler_items:
  assumes "rows_of (items (doc frm)) = []"
  shows "map (\<lambda>c. (get c ''item'', get c ''qty'', get c ''date''))
           (rows_of (items (doc (legacy_generate results frm)))) =
         map (\<lambda>c. (get c ''item'', get c ''qty'', get c ''date''))
           (rows_of (items (doc (generate sn (map spec_normalize_legacy results) frm)))) \<and>
         (\<forall>c \<in> set (rows_of (items (doc (legacy_generate results frm)))).
            get c ''need'' = Undefined \<and> get c ''on_stock'' = Undefined \<and>
            get c ''overload'' = Undefined) \<and>
         negative_stock_items (doc (legacy_generate results frm)) = negative_stock_items (doc frm) \<and>
         overload_items (doc (legacy_generate results frm)) = overload_items (doc frm)"
  using assms
  by (auto simp add: generate_items legacy_generate_items legacy_generate_others
      get_child_values get_legacy_child_values get_spec_normalize_legacy)

theorem legacy_handler_items_witness:
  "rows_of (items (doc example_form)) = [] \<and>
   map (\<lambda>c. (get c ''item'', get c ''qty'', get c ''date''))
     (rows_of (items (doc (legacy_generate legacy_example_results example_form)))) =
   map (\<lambda>c. (get c ''item'', get c ''qty'', get c ''date''))
     (rows_of (items (doc (generate (\<lambda>s. NaN) (map spec_normalize_legacy legacy_example_results)
                            example_form)))) \<and>
   map (\<lambda>c. (get c ''item'', get c ''qty'', get c ''date''))
     (rows_of (items (doc (legacy_generate legacy_example_results example_form)))) =
     [(String ''A'', Number (Fin 10), String ''2024-06'')] \<and>
   negative_stock_items (doc (legacy_generate legacy_example_results example_form)) = None"
proof -
  have e: "rows_of (items (doc example_form)) = []"
    by (simp add: example_form_def rows_of_def)
  have v: "map (\<lambda>c. (get c ''item'', get c ''qty'', get c ''date''))
     (rows_of (items (doc (legacy_generate legacy_example_results example_form)))) =
     [(String ''A'', Number (Fin 10), String ''2024-06'')]"
    by (simp add: legacy_generate_items e legacy_child_values_def legacy_example_results_def
        get_def)
  from legacy_handler_items [OF e, of legacy_example_results "\<lambda>s. NaN"] e v show ?thesis
    by (simp add: example_form_def)
qed

subsection \<open>The fields of a derived row\<close>

text \<open>
  C10. After a generation every row of the three tables has the fields \<open>item\<close>, \<open>qty\<close>,
  \<open>date\<close>, \<open>need\<close>, \<open>on_stock\<close> and \<open>overload\<close> and no other, so no \<open>best_sell\<close>;
  it carries the six values of a response row, the response's \<open>best_sell\<close> under \<open>qty\<close>,
  and every response row has such a row in \<open>items\<close>. So every row of
  \<open>negative_stock_items\<close> has a \<open>qty\<close> field, which holds the \<open>best_sell\<close> of a
  response row with a negative stock; its value is neither \<open>null\<close> nor \<open>undefined\<close>
  when that of those response rows is not.
\<close>

theorem derived_row_fields:
  "(\<forall>r \<in> set results.
      \<exists>c \<in> set (rows_of (items (doc (generate sn results frm)))).
        map fst c = [''item'', ''qty'', ''date'', ''need'', ''on_stock'', ''overload''] \<and>
        get c ''qty'' = get r ''best_sell'' \<and>
        get c ''best_sell'' = Undefined \<and>
        get c ''item'' = get r ''item'' \<and>
        get c ''date'' = get r ''date'' \<and>
        get c ''need'' = get r ''need'' \<and>
        get c ''on_stock'' = get r ''on_stock'' \<and>
        get c ''overload'' = get r ''overload'') \<and>
   (\<forall>c \<in> set (rows_of (items (doc (generate sn results frm)))) \<union>
          set (rows_of (negative_stock_items (doc (generate sn results frm)))) \<union>
          set (rows_of (overload_items (doc (generate sn results frm)))).
      map fst c = [''item'', ''qty'', ''date'', ''need'', ''on_stock'', ''overload''] \<and>
      get c ''best_sell'' = Undefined \<and>
      (\<exists>r \<in> set results. row_fields c = result_fields r)) \<and>
   (\<forall>c \<in> set (rows_of (negative_stock_items (doc (generate sn results frm)))).
      ''qty'' \<in> set (map fst c) \<and>
      (\<exists>r \<in> set results. js_lt sn (get r ''on_stock'') (Fin 0) \<and>
         get c ''qty'' = get r ''best_sell'')) \<and>
   ((\<forall>r \<in> set results. js_lt sn (get r ''on_stock'') (Fin 0) \<longrightarrow>
        \<not> nullish (get r ''best_sell'')) \<longrightarrow>
    (\<forall>c \<in> set (rows_of (negative_stock_items (doc (generate sn results frm)))).
       field_present c ''qty''))"
proof -
  let ?items = "rows_of (items (doc (generate sn results frm)))"
  let ?neg = "rows_of (negative_stock_items (doc (generate sn results frm)))"
  let ?over = "rows_of (overload_items (doc (generate sn results frm)))"
  let ?keys = "[''item'', ''qty'', ''date'', ''need'', ''on_stock'', ''overload'']"
  have from_result: "\<exists>c \<in> set ?items.
        map fst c = ?keys \<and>
        get c ''qty'' = get r ''best_sell'' \<and>
        get c ''best_sell'' = Undefined \<and>
        get c ''item'' = get r ''item'' \<and>
        get c ''date'' = get r ''date'' \<and>
        get c ''need'' = get r ''need'' \<and>
        get c ''on_stock'' = get r ''on_stock'' \<and>
        get c ''overload'' = get r ''overload''"
    if "r \<in> set results" for r
  proof -
    from that have "child_values r \<in> set ?items"
      by (simp add: generate_items)
    then show ?thesis
      by (rule rev_bexI) (simp add: keys_child_values get_child_values)
  qed
  have origin: "\<exists>r \<in> set results. c = child_values r"
    if "c \<in> set ?items \<union> set ?neg \<union> set ?over" for c
    using that by (auto simp add: generate_items generate_negative generate_overload)
  have shape: "map fst c = ?keys \<and> get c ''best_sell'' = Undefined \<and>
      (\<exists>r \<in> set results. row_fields c = result_fields r)"
    if "c \<in> set ?items \<union> set ?neg \<union> set ?over" for c
  proof -
    from origin [OF that] obtain r where r: "r \<in> set results" "c = child_values r"
      by blast
    then have "row_fields c = result_fields r"
      by (simp add: row_fields_child_values)
    with r show ?thesis
      by (auto simp add: keys_child_values get_child_values)
  qed
  have neg_origin: "\<exists>r \<in> set results. js_lt sn (get r ''on_stock'') (Fin 0) \<and> c = child_values r"
    if "c \<in> set ?neg" for c
    using that by (auto simp add: generate_negative)
  have neg_qty: "''qty'' \<in> set (map fst c) \<and>
      (\<exists>r \<in> set results. js_lt sn (get r ''on_stock'') (Fin 0) \<and>
         get c ''qty'' = get r ''best_sell'')"
    if "c \<in> set ?neg" for c
  proof -
    from neg_origin [OF that] obtain r
      where r: "r \<in> set results" "js_lt sn (get r ''on_stock'') (Fin 0)" "c = child_values r"
      by blast
    then have "map fst c = ?keys" and "get c ''qty'' = get r ''best_sell''"
      by (simp_all add: keys_child_values get_child_values)
    with r show ?thesis
      by auto
  qed
  have present: "field_present c ''qty''"
    if t: "\<forall>r \<in> set results. js_lt sn (get r ''on_stock'') (Fin 0) \<longrightarrow>
             \<not> nullish (get r ''best_sell'')"
      and c: "c \<in> set ?neg" for c
  proof -
    from neg_qty [OF c] obtain r
      where "r \<in> set results" "js_lt sn (get r ''on_stock'') (Fin 0)"
        "get c ''qty'' = get r ''best_sell''"
      by blast
    with t show ?thesis
      by (simp add: field_present_def)
  qed
  show ?thesis
  proof (intro conjI ballI impI)
    fix r assume "r \<in> set results"
    then show "\<exists>c \<in> set ?items.
        map fst c = ?keys \<and>
        get c ''qty'' = get r ''best_sell'' \<and>
        get c ''best_sell'' = Undefined \<and>
        get c ''item'' = get r ''item'' \<and>
        get c ''date'' = get r ''date'' \<and>
        get c ''need'' = get r ''need'' \<and>
        get c ''on_stock'' = get r ''on_stock'' \<and>
        get c ''overload'' = get r ''overload''"
      by (rule from_result)
  qed (use shape neg_qty present in blast)+
qed

text \<open>
  The example: the one row of \<open>negative_stock_items\<close> has the key \<open>qty\<close>, which holds
  row A's \<open>best_sell\<close> of 10 and so is present.
\<close>

theorem derived_row_fields_witness:
  "js_lt (\<lambda>s. NaN) (get (example_results ! 0) ''on_stock'') (Fin 0) \<and>
   \<not> nullish (get (example_results ! 0) ''best_sell'') \<and>
   \<not> js_lt (\<lambda>s. NaN) (get (example_results ! 1) ''on_stock'') (Fin 0) \<and>
   rows_of (negative_stock_items (doc (generate (\<lambda>s. NaN) example_results example_form))) \<noteq> [] \<and>
   ''qty'' \<in> set (map fst
     (hd (rows_of (negative_stock_items (doc (generate (\<lambda>s. NaN) example_results example_form)))))) \<and>
   get (hd (rows_of (negative_stock_items (doc (generate (\<lambda>s. NaN) example_results example_form)))))
     ''best_sell'' = Undefined \<and>
   field_present
     (hd (rows_of (negative_stock_items (doc (generate (\<lambda>s. NaN) example_results example_form)))))
     ''qty''"
proof -
  let ?neg = "rows_of (negative_stock_items (doc (generate (\<lambda>s. NaN) example_results example_form)))"
  have lt: "js_lt (\<lambda>s. NaN) (get (example_results ! 0) ''on_stock'') (Fin 0)"
    "\<not> js_lt (\<lambda>s. NaN) (get (example_results ! 1) ''on_stock'') (Fin 0)"
    by (simp_all add: example_results_def get_def js_lt_def)
  have b: "\<not> nullish (get (example_results ! 0) ''best_sell'')"
    by (simp add: example_results_def get_def)
  have t: "\<forall>r \<in> set example_results. js_lt (\<lambda>s. NaN) (get r ''on_stock'') (Fin 0) \<longrightarrow>
             \<not> nullish (get r ''best_sell'')"
    by (simp add: example_results_def get_def js_lt_def)
  have ne: "?neg \<noteq> []"
    by (simp add: generate_negative example_results_def get_def js_lt_def)
  then have h: "hd ?neg \<in> set ?neg"
    by simp
  from derived_row_fields [of example_results "\<lambda>s. NaN" example_form] t h
  have "''qty'' \<in> set (map fst (hd ?neg))" and "get (hd ?neg) ''best_sell'' = Undefined"
    and "field_present (hd ?neg) ''qty''"
    by blast+
  with lt b ne show ?thesis
    by simp
qed

end
